theory Spec2Isabelle
  imports Main "HOL-Library.AList"
begin

section \<open>Strings and paths\<close>

text \<open>
  Python strings are modelled as \<open>string\<close> (lists of 8-bit characters); \<open>str.lower\<close> is the
  ASCII lowering of every character. Paths are POSIX paths: the model follows the branch of
  the server taken when \<open>SYSTEM\<close> is not \<open>Windows\<close>, where no path normalisation is done.
\<close>

definition lower_char :: "char \<Rightarrow> char" where
  "lower_char c =
     (if (65::nat) \<le> of_char c \<and> of_char c \<le> (90::nat)
      then char_of (of_char c + (32::nat)) else c)"

definition lower :: "string \<Rightarrow> string" where
  "lower s = map lower_char s"

definition startswith :: "string \<Rightarrow> string \<Rightarrow> bool" where
  "startswith s p = (take (length p) s = p)"

text \<open>\<open>os.path.basename\<close>: everything after the last slash.\<close>

definition basename :: "string \<Rightarrow> string" where
  "basename p = rev (takeWhile (\<lambda>c. c \<noteq> CHR ''/'') (rev p))"

text \<open>
  \<open>os.path.splitext(p)[1]\<close>: the extension starts at the last dot of the last component,
  unless only dots precede it there (leading dots belong to the name).
\<close>

definition splitext_ext :: "string \<Rightarrow> string" where
  "splitext_ext p =
     (let b = basename p;
          e = rev (takeWhile (\<lambda>c. c \<noteq> CHR ''.'') (rev b));
          stem = take (length b - length e - 1) b
      in if CHR ''.'' \<notin> set b then []
         else if list_all (\<lambda>c. c = CHR ''.'') stem then []
         else CHR ''.'' # e)"

text \<open>\<open>os.path.join(a, b)\<close> for two components.\<close>

definition join :: "string \<Rightarrow> string \<Rightarrow> string" where
  "join a b =
     (if startswith b ''/'' then b
      else if a = [] \<or> last a = CHR ''/'' then a @ b
      else a @ ''/'' @ b)"

section \<open>Type classifier\<close>

text \<open>
  \<open>mimetypes.guess_type\<close> is the standard library's table, which depends on the host; it is
  a parameter \<open>guess\<close> of the classifier, giving the declared media type of a path if any.
\<close>

type_synonym mime_table = "string \<Rightarrow> string option"


definition ext_fallback :: "string \<Rightarrow> string" where
  "ext_fallback ext =
     (if ext \<in> set [''.jpg'', ''.jpeg'', ''.png'', ''.gif'', ''.bmp'', ''.tiff'', ''.webp'']
        then ''image''
      else if ext \<in> set [''.mp4'', ''.avi'', ''.mov'', ''.wmv'', ''.mkv'', ''.flv'', ''.webm'']
        then ''video''
      else if ext \<in> set [''.mp3'', ''.wav'', ''.ogg'', ''.flac'', ''.aac'', ''.m4a'']
        then ''audio''
      else if ext \<in> set [''.pdf'', ''.txt'', ''.md'', ''.rtf'']
        then ''document''
      else if ext \<in> set [''.py'', ''.js'', ''.html'', ''.css'', ''.java'', ''.cpp'', ''.c'',
                          ''.h'', ''.cs'', ''.php'', ''.rb'', ''.go'', ''.rs'', ''.ts'']
        then ''code''
      else if ext \<in> set [''.csv'', ''.json'', ''.xml'', ''.yaml'', ''.yml'', ''.sql'', ''.db'',
                          ''.sqlite'']
        then ''data''
      else if ext \<in> set [''.zip'', ''.rar'', ''.7z'', ''.tar'', ''.gz'', ''.bz2'']
        then ''archive''
      else if ext \<in> set [''.exe'', ''.msi'', ''.bat'', ''.sh'', ''.app'', ''.dmg'']
        then ''executable''
      else if ext \<in> set [''.doc'', ''.docx''] then ''document''
      else if ext \<in> set [''.xls'', ''.xlsx''] then ''spreadsheet''
      else if ext \<in> set [''.ppt'', ''.pptx''] then ''presentation''
      else ''unknown'')"

definition get_file_type :: "mime_table \<Rightarrow> string \<Rightarrow> string" where
  "get_file_type guess file_path =
     (let fallback = ext_fallback (lower (splitext_ext file_path)) in
      case guess file_path of
        None \<Rightarrow> fallback
      | Some mime_type \<Rightarrow>
          if mime_type = [] then fallback
          else if startswith mime_type ''image/'' then ''image''
          else if startswith mime_type ''video/'' then ''video''
          else if startswith mime_type ''audio/'' then ''audio''
          else if startswith mime_type ''text/'' then ''text''
          else if startswith mime_type ''application/pdf'' then ''pdf''
          else if startswith mime_type ''application/msword''
                \<or> startswith mime_type
                     ''application/vnd.openxmlformats-officedocument.wordprocessingml''
            then ''document''
          else if startswith mime_type ''application/vnd.ms-excel''
                \<or> startswith mime_type
                     ''application/vnd.openxmlformats-officedocument.spreadsheetml''
            then ''spreadsheet''
          else if startswith mime_type ''application/vnd.ms-powerpoint''
                \<or> startswith mime_type
                     ''application/vnd.openxmlformats-officedocument.presentationml''
            then ''presentation''
          else fallback)"




section \<open>The file system\<close>

text \<open>
  The state of the host's file system is a tree: a regular file with its stored characters,
  or a directory with its entries in enumeration order. Paths are resolved from the root of
  the tree, which is also the working directory; empty and \<open>.\<close> components are skipped.
  Symbolic links, \<open>..\<close> components, permissions and timestamps are not part of the model.
\<close>

datatype node = File string | Dir "(string \<times> node) list"

datatype exn = FileNotFoundError | IsADirectoryError | NotADirectoryError | FileExistsError
  | SameFileError | UnboundLocalError

text \<open>
  An error payload \<open>{"error": ...}\<close>: either one of the server's own messages, or the text
  of an exception caught by \<open>except Exception as e\<close>.
\<close>

datatype error = Msg string | Raised exn

fun split_sep :: "string \<Rightarrow> string list" where
  "split_sep [] = [[]]"
| "split_sep (c # cs) =
     (if c = CHR ''/'' then [] # split_sep cs
      else (case split_sep cs of [] \<Rightarrow> [[c]] | x # xs \<Rightarrow> (c # x) # xs))"

definition components :: "string \<Rightarrow> string list" where
  "components p = filter (\<lambda>s. s \<noteq> [] \<and> s \<noteq> ''.'') (split_sep p)"

fun lookup :: "node \<Rightarrow> string list \<Rightarrow> node option" where
  "lookup n [] = Some n"
| "lookup (File c) (x # xs) = None"
| "lookup (Dir es) (x # xs) = (case map_of es x of None \<Rightarrow> None | Some n \<Rightarrow> lookup n xs)"

definition resolve :: "node \<Rightarrow> string \<Rightarrow> node option" where
  "resolve fs p = lookup fs (components p)"

definition isfile :: "node \<Rightarrow> string \<Rightarrow> bool" where
  "isfile fs p = (case resolve fs p of Some (File c) \<Rightarrow> True | _ \<Rightarrow> False)"

definition isdir :: "node \<Rightarrow> string \<Rightarrow> bool" where
  "isdir fs p = (case resolve fs p of Some (Dir es) \<Rightarrow> True | _ \<Rightarrow> False)"


text \<open>The size that \<open>stat\<close> reports: the stored length of a file, a block for a directory.\<close>

definition dir_size :: nat where
  "dir_size = 4096"

definition node_size :: "node \<Rightarrow> nat" where
  "node_size n = (case n of File c \<Rightarrow> length c | Dir es \<Rightarrow> dir_size)"

definition getsize :: "node \<Rightarrow> string \<Rightarrow> exn + nat" where
  "getsize fs p =
     (case resolve fs p of None \<Rightarrow> Inl FileNotFoundError | Some n \<Rightarrow> Inr (node_size n))"

definition listdir :: "node \<Rightarrow> string \<Rightarrow> exn + string list" where
  "listdir fs p =
     (case resolve fs p of
        None \<Rightarrow> Inl FileNotFoundError
      | Some (File c) \<Rightarrow> Inl NotADirectoryError
      | Some (Dir es) \<Rightarrow> Inr (map fst es))"

text \<open>
  \<open>os.walk\<close>, top-down: one triple (directory, subdirectory names, other names) for the
  directory itself, then the triples of each subdirectory in turn. A top that is not a
  directory yields nothing (errors of the scan are ignored by default).
\<close>

fun walk_node :: "string \<Rightarrow> node \<Rightarrow> (string \<times> string list \<times> string list) list" where
  "walk_node d (File c) = []"
| "walk_node d (Dir es) =
     (d, map fst (filter (\<lambda>(name, n). case n of Dir x \<Rightarrow> True | File c \<Rightarrow> False) es),
           map fst (filter (\<lambda>(name, n). case n of Dir x \<Rightarrow> False | File c \<Rightarrow> True) es))
     # concat (map (\<lambda>(name, n). walk_node (join d name) n) es)"

definition walk :: "node \<Rightarrow> string \<Rightarrow> (string \<times> string list \<times> string list) list" where
  "walk fs d = (case resolve fs d of None \<Rightarrow> [] | Some n \<Rightarrow> walk_node d n)"

subsection \<open>Text input and output\<close>

text \<open>
  Files are opened in text mode with the default \<open>newline=None\<close>: on reading, \<open>\r\n\<close> and a
  lone \<open>\r\<close> both arrive as \<open>\n\<close>; on writing, \<open>\n\<close> becomes the host's line separator,
  which is \<open>\n\<close> itself on a POSIX host, so the text is stored as it is.
\<close>

fun universal_newlines :: "string \<Rightarrow> string" where
  "universal_newlines [] = []"
| "universal_newlines (c # cs) =
     (if c = CHR 0x0D then
        (case cs of
           [] \<Rightarrow> [CHR 0x0A]
         | d # ds \<Rightarrow> if d = CHR 0x0A then CHR 0x0A # universal_newlines ds
                     else CHR 0x0A # universal_newlines cs)
      else c # universal_newlines cs)"

definition open_read :: "node \<Rightarrow> string \<Rightarrow> exn + string" where
  "open_read fs p =
     (case resolve fs p of
        None \<Rightarrow> Inl FileNotFoundError
      | Some (Dir es) \<Rightarrow> Inl IsADirectoryError
      | Some (File c) \<Rightarrow> Inr (universal_newlines c))"

text \<open>Iterating over an open text file: its lines, each with its final \<open>\n\<close> if it has one.\<close>

fun readlines :: "string \<Rightarrow> string list" where
  "readlines [] = []"
| "readlines (c # cs) =
     (if c = CHR 0x0A then [c] # readlines cs
      else (case readlines cs of [] \<Rightarrow> [[c]] | l # ls \<Rightarrow> (c # l) # ls))"


text \<open>\<open>os.remove\<close>: unlinks a regular file.\<close>

fun remove_at :: "node \<Rightarrow> string list \<Rightarrow> exn + node" where
  "remove_at n [] = Inl IsADirectoryError"
| "remove_at (File c) (x # xs) = Inl NotADirectoryError"
| "remove_at (Dir es) (x # xs) =
     (case map_of es x of
        None \<Rightarrow> Inl FileNotFoundError
      | Some n \<Rightarrow>
          if xs = [] then
            (case n of File c \<Rightarrow> Inr (Dir (AList.delete x es)) | Dir ys \<Rightarrow> Inl IsADirectoryError)
          else
            (case remove_at n xs of
               Inl e \<Rightarrow> Inl e
             | Inr n' \<Rightarrow> Inr (Dir (AList.update x n' es))))"



section \<open>Metadata extractor\<close>

record metadata =
  md_path :: string
  md_name :: string
  md_size :: nat
  md_type :: string
  md_preview :: "string option"
  md_line_count :: "nat option"
  md_preview_error :: "exn option"

definition text_types :: "string list" where
  "text_types = [''text'', ''code'', ''document'']"

definition text_extensions :: "string list" where
  "text_extensions = [''.txt'', ''.md'', ''.csv'', ''.json'', ''.xml'', ''.html'', ''.css'', ''.js'',
     ''.py'', ''.java'', ''.c'', ''.cpp'', ''.h'', ''.cs'', ''.php'', ''.rb'', ''.go'', ''.rs'', ''.ts'']"

definition get_file_metadata :: "mime_table \<Rightarrow> node \<Rightarrow> string \<Rightarrow> error + metadata" where
  "get_file_metadata guess fs file_path =
     (case resolve fs file_path of
        None \<Rightarrow> Inl (Raised FileNotFoundError)
      | Some n \<Rightarrow>
          (let file_type = get_file_type guess file_path;
               m = \<lparr>md_path = file_path, md_name = basename file_path, md_size = node_size n,
                    md_type = file_type, md_preview = None, md_line_count = None,
                    md_preview_error = None\<rparr>
           in if file_type \<in> set text_types
                 \<and> lower (splitext_ext file_path) \<in> set text_extensions
              then (case open_read fs file_path of
                      Inl e \<Rightarrow> Inr (m\<lparr>md_preview_error := Some e\<rparr>)
                    | Inr f \<Rightarrow>
                        (let preview = take 1000 f;
                             preview = (if length preview = 1000
                                        then preview @ ''... (truncated)'' else preview)
                         in Inr (m\<lparr>md_preview := Some preview,
                                    md_line_count := Some (length (readlines f))\<rparr>)))
              else Inr m))"

section \<open>Scan and name search\<close>

text \<open>\<open>file_types is None or file_type in file_types\<close>\<close>

definition type_selected :: "string list option \<Rightarrow> string \<Rightarrow> bool" where
  "type_selected file_types file_type =
     (case file_types of None \<Rightarrow> True | Some ts \<Rightarrow> file_type \<in> set ts)"



text \<open>\<open>q in s\<close> on strings: \<open>q\<close> occurs in \<open>s\<close> at some position.\<close>

definition contains :: "string \<Rightarrow> string \<Rightarrow> bool" where
  "contains s q = list_ex (\<lambda>i. startswith (drop i s) q) [0..<Suc (length s)]"






section \<open>Content search\<close>

text \<open>\<open>s.find(q)\<close>: the lowest index at which \<open>q\<close> occurs in \<open>s\<close>, or \<open>-1\<close>.\<close>

fun find_from :: "string \<Rightarrow> string \<Rightarrow> nat \<Rightarrow> int" where
  "find_from [] q i = (if q = [] then int i else - 1)"
| "find_from (c # cs) q i = (if startswith (c # cs) q then int i else find_from cs q (Suc i))"

definition str_find :: "string \<Rightarrow> string \<Rightarrow> int" where
  "str_find s q = find_from s q 0"

text \<open>\<open>s[a:b]\<close>: a negative bound counts from the end, and both are clipped to the string.\<close>

definition slice_bound :: "nat \<Rightarrow> int \<Rightarrow> nat" where
  "slice_bound n i = (if i < 0 then nat (max 0 (int n + i)) else min n (nat i))"

definition slice :: "string \<Rightarrow> int \<Rightarrow> int \<Rightarrow> string" where
  "slice s a b = drop (slice_bound (length s) a) (take (slice_bound (length s) b) s)"

record match =
  match_context :: string
  match_line :: int

definition make_match :: "string \<Rightarrow> string \<Rightarrow> match" where
  "make_match content query =
     (let index = str_find (lower content) query;
          start = max 0 (index - 50);
          end' = min (int (length content)) (index + int (length query) + 50);
          line_number = int (count_list (slice content 0 index) (CHR 0x0A)) + 1
      in \<lparr>match_context = slice content start end', match_line = line_number\<rparr>)"

text \<open>
  The state of the search loop: the results, the counter, and a trace of the effect of
  \<open>open\<close>: each path that is opened, with the value of the counter at that moment.
\<close>

record search_state =
  results :: "((error + metadata) \<times> match) list"
  count :: int
  opened :: "(string \<times> int) list"

text \<open>
  The body that both branches of \<open>search_file_contents\<close> run on a candidate path. A file
  that cannot be opened is skipped.
\<close>

definition search_file ::
  "mime_table \<Rightarrow> node \<Rightarrow> string \<Rightarrow> string list option \<Rightarrow> string \<Rightarrow> search_state
     \<Rightarrow> search_state" where
  "search_file guess fs query file_types file_path st =
     (let file_type = get_file_type guess file_path;
          ext = lower (splitext_ext file_path)
      in if type_selected file_types file_type
            \<and> (file_type \<in> set text_types \<or> ext \<in> set text_extensions)
         then
           (let st1 = st\<lparr>opened := opened st @ [(file_path, count st)]\<rparr>
            in case open_read fs file_path of
                 Inl e \<Rightarrow> st1
               | Inr content \<Rightarrow>
                   if contains (lower content) query
                   then st1\<lparr>results := results st1 @
                               [(get_file_metadata guess fs file_path, make_match content query)],
                            count := count st1 + 1\<rparr>
                   else st1)
         else st)"

text \<open>The loop over the files of one directory of the walk, with its \<open>break\<close>.\<close>

fun search_walk_files ::
  "mime_table \<Rightarrow> node \<Rightarrow> string \<Rightarrow> string list option \<Rightarrow> int \<Rightarrow> string \<Rightarrow> string list
     \<Rightarrow> search_state \<Rightarrow> search_state" where
  "search_walk_files guess fs query file_types max_results root [] st = st"
| "search_walk_files guess fs query file_types max_results root (file # files) st =
     (if count st \<ge> max_results then st
      else search_walk_files guess fs query file_types max_results root files
             (search_file guess fs query file_types (join root file) st))"

text \<open>The loop over the entries of the directory, with its \<open>break\<close>.\<close>

fun search_list_items ::
  "mime_table \<Rightarrow> node \<Rightarrow> string \<Rightarrow> string list option \<Rightarrow> int \<Rightarrow> string \<Rightarrow> string list
     \<Rightarrow> search_state \<Rightarrow> search_state" where
  "search_list_items guess fs query file_types max_results directory_path [] st = st"
| "search_list_items guess fs query file_types max_results directory_path (item # items) st =
     (if count st \<ge> max_results then st
      else search_list_items guess fs query file_types max_results directory_path items
             (let file_path = join directory_path item
              in if isfile fs file_path
                 then search_file guess fs query file_types file_path st else st))"

definition search_file_contents ::
  "mime_table \<Rightarrow> node \<Rightarrow> string \<Rightarrow> string \<Rightarrow> bool \<Rightarrow> string list option \<Rightarrow> int
     \<Rightarrow> (error + ((error + metadata) \<times> match) list) \<times> (string \<times> int) list" where
  "search_file_contents guess fs directory_path query0 recursive file_types max_results =
     (let query = lower query0;
          st0 = \<lparr>results = [], count = 0, opened = []\<rparr>
      in if recursive then
           (let st = fold (\<lambda>(root, dirs, files).
                             search_walk_files guess fs query file_types max_results root files)
                       (walk fs directory_path) st0
            in (Inr (results st), opened st))
         else
           (case listdir fs directory_path of
              Inl e \<Rightarrow> (Inl (Raised e), [])
            | Inr items \<Rightarrow>
                (let st = search_list_items guess fs query file_types max_results
                            directory_path items st0
                 in (Inr (results st), opened st))))"

section \<open>Reading and writing text files\<close>

text \<open>\<open>str(n)\<close> for an integer, as the f-string of the truncation notice formats it.\<close>

definition digit_char :: "nat \<Rightarrow> char" where
  "digit_char d = char_of (48 + d)"

function str_nat :: "nat \<Rightarrow> string" where
  "str_nat n = (if n < 10 then [digit_char n] else str_nat (n div 10) @ [digit_char (n mod 10)])"
  by pat_completeness auto
termination
  by (relation "measure (\<lambda>n. n)") auto

definition str_int :: "int \<Rightarrow> string" where
  "str_int i = (if i < 0 then CHR ''-'' # str_nat (nat (- i)) else str_nat (nat i))"

text \<open>
  The line-limited loop \<open>for i, line in enumerate(f)\<close>. The loop variable \<open>i\<close> is unbound
  (\<open>None\<close>) until the first iteration binds it.
\<close>

fun read_loop ::
  "int \<Rightarrow> (nat \<times> string) list \<Rightarrow> string list \<Rightarrow> nat option \<Rightarrow> string list \<times> nat option" where
  "read_loop max_lines [] lines i = (lines, i)"
| "read_loop max_lines ((j, l) # rest) lines i =
     (if int j \<ge> max_lines then (lines, Some j)
      else read_loop max_lines rest (lines @ [l]) (Some j))"

definition read_limited :: "string \<Rightarrow> int \<Rightarrow> exn + string" where
  "read_limited f max_lines =
     (case read_loop max_lines (enumerate 0 (readlines f)) [] None of
        (lines, None) \<Rightarrow> Inl UnboundLocalError
      | (lines, Some i) \<Rightarrow>
          (let content = concat lines
           in if int i \<ge> max_lines
              then Inr (content @ [CHR 0x0A] @ ''... (truncated, showing '' @ str_int max_lines
                          @ '' of '' @ str_int (int i + 1) @ ''+ lines)'')
              else Inr content))"

record read_result =
  rd_path :: string
  rd_name :: string
  rd_content :: string
  rd_size :: nat

definition read_text_file ::
  "mime_table \<Rightarrow> node \<Rightarrow> string \<Rightarrow> int option \<Rightarrow> error + read_result" where
  "read_text_file guess fs file_path max_lines =
     (if \<not> isfile fs file_path then Inl (Msg (''File not found: '' @ file_path))
      else if get_file_type guess file_path \<notin> set text_types
        then Inl (Msg (''Not a text file: '' @ file_path))
      else
        (case open_read fs file_path of
           Inl e \<Rightarrow> Inl (Raised e)
         | Inr f \<Rightarrow>
             (case (case max_lines of
                      None \<Rightarrow> Inr f
                    | Some k \<Rightarrow> if k \<noteq> 0 then read_limited f k else Inr f) of
                Inl e \<Rightarrow> Inl (Raised e)
              | Inr content \<Rightarrow>
                  (case getsize fs file_path of
                     Inl e \<Rightarrow> Inl (Raised e)
                   | Inr n \<Rightarrow>
                       Inr \<lparr>rd_path = file_path, rd_name = basename file_path,
                            rd_content = content, rd_size = n\<rparr>))))"



section \<open>Copy and delete\<close>



record delete_result =
  del_path :: string
  del_name :: string
  del_size :: nat

definition delete_file :: "node \<Rightarrow> string \<Rightarrow> node \<times> (error + delete_result)" where
  "delete_file fs file_path =
     (if \<not> isfile fs file_path then (fs, Inl (Msg (''File not found: '' @ file_path)))
      else
        (case getsize fs file_path of
           Inl e \<Rightarrow> (fs, Inl (Raised e))
         | Inr n \<Rightarrow>
             (case remove_at fs (components file_path) of
                Inl e \<Rightarrow> (fs, Inl (Raised e))
              | Inr fs' \<Rightarrow>
                  (fs', Inr \<lparr>del_path = file_path, del_name = basename file_path,
                             del_size = n\<rparr>))))"

text \<open>A small tree for concrete runs: two text files, a script and a subdirectory.\<close>

definition example_fs :: node where
  "example_fs = Dir [(''a.txt'', File ''hello world''), (''b.py'', File ''print(1)''),
     (''empty.txt'', File []),
     (''sub'', Dir [(''Test.md'', File ''one world''), (''c.jpg'', File ''JFIF'')])]"

definition no_mime :: mime_table where
  "no_mime p = None"

section \<open>Queries that differ only in letter case\<close>


section \<open>The files that a scan visits\<close>



section \<open>Invariants of the content search\<close>

text \<open>
  The results and the counter grow together, the counter never passes the cap, and every
  file was opened while the counter was below the cap.
\<close>

definition search_inv :: "int \<Rightarrow> search_state \<Rightarrow> bool" where
  "search_inv max_results st =
     (int (length (results st)) = count st \<and> count st \<le> max 0 max_results \<and>
      (\<forall>(p, c) \<in> set (opened st). c < max_results))"

section \<open>The match record of a first occurrence\<close>




section \<open>Paths that can be written\<close>


section \<open>Parent directories that can be created\<close>


section \<open>Properties of the classifier\<close>










section \<open>Name search\<close>




section \<open>Reading an empty file with a line limit\<close>

lemma read_limited_empty: "read_limited [] k = Inl UnboundLocalError"
  by (simp add: read_limited_def enumerate_eq_zip)

text \<open>
  Claim C9: for an existing, empty regular file of a textual category, \<open>read_text_file\<close>
  with a positive \<open>max_lines\<close> returns an error payload and no content: the loop over the
  lines never runs, so the test of \<open>i\<close> after the loop raises \<open>UnboundLocalError\<close>, which the
  handler turns into the error result.
\<close>

theorem read_text_file_empty_max_lines:
  assumes "resolve fs p = Some (File [])" and "get_file_type guess p \<in> set text_types"
    and "0 < k"
  shows "read_text_file guess fs p (Some k) = Inl (Raised UnboundLocalError)"
  using assms
  by (simp add: read_text_file_def isfile_def open_read_def read_limited_empty)

theorem read_text_file_empty_max_lines_witness:
  "resolve example_fs ''/empty.txt'' = Some (File []) \<and>
   get_file_type no_mime ''/empty.txt'' \<in> set text_types \<and> (0::int) < 3 \<and>
   read_text_file no_mime example_fs ''/empty.txt'' (Some 3) = Inl (Raised UnboundLocalError)"
proof -
  have h1: "resolve example_fs ''/empty.txt'' = Some (File [])"
    by code_simp
  have h2: "get_file_type no_mime ''/empty.txt'' \<in> set text_types"
    by code_simp
  have h3: "(0::int) < 3"
    by simp
  show ?thesis
    using h1 h2 h3 read_text_file_empty_max_lines [OF h1 h2 h3] by simp
qed

section \<open>Deleting\<close>

lemma isdir_not_isfile: "isdir fs p \<Longrightarrow> \<not> isfile fs p"
  by (auto simp: isdir_def isfile_def split: option.splits node.splits)

text \<open>
  Claim C10: \<open>delete_file\<close> operates on regular files only. For a path that exists and is
  a directory it returns the error \<open>File not found: <path>\<close> and the file system is
  unchanged.
\<close>

theorem delete_file_directory:
  "isdir fs p \<Longrightarrow> delete_file fs p = (fs, Inl (Msg (''File not found: '' @ p)))"
  by (simp add: delete_file_def isdir_not_isfile)

theorem delete_file_directory_witness:
  "isdir example_fs ''/sub'' \<and>
   delete_file example_fs ''/sub'' = (example_fs, Inl (Msg ''File not found: /sub''))"
proof -
  have h: "isdir example_fs ''/sub''"
    by code_simp
  show ?thesis
    using h delete_file_directory [OF h] by simp
qed

section \<open>Scan and name search as filters of the visited files\<close>











section \<open>The scan and name-search tools\<close>



section \<open>Content search: the cap on the results\<close>

lemma search_file_inv:
  assumes "search_inv mr st" and "count st < mr"
  shows "search_inv mr (search_file guess fs q ft p st)"
  using assms
  by (auto simp: search_inv_def search_file_def Let_def split: sum.splits)

lemma search_walk_files_inv:
  "search_inv mr st \<Longrightarrow> search_inv mr (search_walk_files guess fs q ft mr root files st)"
  by (induction files arbitrary: st) (simp_all add: search_file_inv)

lemma search_list_items_inv:
  "search_inv mr st \<Longrightarrow> search_inv mr (search_list_items guess fs q ft mr d items st)"
  by (induction items arbitrary: st) (simp_all add: search_file_inv Let_def)

lemma fold_walk_inv:
  "search_inv mr st \<Longrightarrow>
   search_inv mr (fold (\<lambda>(root, dirs, files). search_walk_files guess fs q ft mr root files) ws st)"
  by (induction ws arbitrary: st) (auto simp: search_walk_files_inv)

lemma search_inv_init: "search_inv mr \<lparr>results = [], count = 0, opened = []\<rparr>"
  by (simp add: search_inv_def)

text \<open>
  Claim C3: for every directory, query and \<open>max_results\<close>, in both modes, the sequence
  returned by \<open>search_file_contents\<close> has at most \<open>max_results\<close> matches (none when
  \<open>max_results\<close> is not positive); and every file that the search opens is opened while
  fewer than \<open>max_results\<close> matches have been collected, so that no further candidate is
  opened or read once the cap is reached.
\<close>

theorem search_file_contents_capped:
  "(case fst (search_file_contents guess fs d q recursive ft max_results) of
      Inl e \<Rightarrow> True
    | Inr rs \<Rightarrow> int (length rs) \<le> max 0 max_results) \<and>
   (\<forall>(p, c) \<in> set (snd (search_file_contents guess fs d q recursive ft max_results)).
      c < max_results)"
proof (cases recursive)
  case True
  let ?st = "fold (\<lambda>(root, dirs, files). search_walk_files guess fs (lower q) ft max_results root files)
               (walk fs d) \<lparr>results = [], count = 0, opened = []\<rparr>"
  have "search_inv max_results ?st"
    by (rule fold_walk_inv [OF search_inv_init])
  then show ?thesis
    using True by (simp add: search_file_contents_def search_inv_def Let_def)
next
  case False
  show ?thesis
  proof (cases "listdir fs d")
    case (Inl e)
    then show ?thesis
      using False by (simp add: search_file_contents_def)
  next
    case (Inr items)
    let ?st = "search_list_items guess fs (lower q) ft max_results d items
                 \<lparr>results = [], count = 0, opened = []\<rparr>"
    have "search_inv max_results ?st"
      by (rule search_list_items_inv [OF search_inv_init])
    then show ?thesis
      using False Inr by (simp add: search_file_contents_def search_inv_def Let_def)
  qed
qed

theorem search_file_contents_capped_witness:
  "list_all (\<lambda>(p, c). c < 1)
     (snd (search_file_contents no_mime example_fs ''/'' ''WORLD'' True None 1)) \<and>
   snd (search_file_contents no_mime example_fs ''/'' ''WORLD'' True None 1) = [(''/a.txt'', 0)] \<and>
   length (snd (search_file_contents no_mime example_fs ''/'' ''WORLD'' True None 5)) = 4"
proof -
  have t: "snd (search_file_contents no_mime example_fs ''/'' ''WORLD'' True None 1) =
           [(''/a.txt'', 0)]"
    by code_simp
  have u: "length (snd (search_file_contents no_mime example_fs ''/'' ''WORLD'' True None 5)) = 4"
    by code_simp
  have b: "list_all (\<lambda>(p, c). c < 1)
             (snd (search_file_contents no_mime example_fs ''/'' ''WORLD'' True None 1))"
    using search_file_contents_capped [where guess = no_mime and fs = example_fs
        and d = "''/''" and q = "''WORLD''" and recursive = True and ft = None
        and max_results = 1]
    by (simp add: list_all_iff)
  show ?thesis
    by (intro conjI) (rule b, rule t, rule u)
qed

section \<open>Content search: the match record\<close>


















section \<open>Writing and reading back\<close>










section \<open>Copying\<close>














end
